theory Spec2Isabelle
  imports Main
begin

section \<open>JavaScript values\<close>

text \<open>
  The values that reach the engine of \<^verbatim>\<open>src/src/JsonRpcEngine.ts\<close>: requests, callback
  arguments, what a middleware throws, returns or passes to \<^verbatim>\<open>end\<close>, and the errors the
  engine builds. Numbers are the integers (ids and error codes; a fraction behaves like a
  non-zero integer in every test the engine makes). \<open>JError m ps\<close> is an instance of
  \<^verbatim>\<open>Error\<close> that is not an \<^verbatim>\<open>EthereumRpcError\<close>, with message \<open>m\<close> and further own
  properties \<open>ps\<close>; \<open>JRpcError c m d\<close> is an instance of \<^verbatim>\<open>EthereumRpcError\<close>, a class of
  the package \<^verbatim>\<open>eth-rpc-errors\<close>, with code \<open>c\<close>, message \<open>m\<close> and data \<open>d\<close>. Function
  values are not \<open>jsval\<close>s: they appear where the engine calls them (middleware, return
  handlers, the callback).
\<close>

datatype jsval =
    JUndefined
  | JNull
  | JBool bool
  | JNum int
  | JStr string
  | JArr "jsval list"
  | JObj "(string \<times> jsval) list"
  | JError string "(string \<times> jsval) list"
  | JRpcError int string jsval

type_synonym props = "(string \<times> jsval) list"

fun truthy :: "jsval \<Rightarrow> bool" where
  "truthy JUndefined = False"
| "truthy JNull = False"
| "truthy (JBool b) = b"
| "truthy (JNum n) = (n \<noteq> 0)"
| "truthy (JStr s) = (s \<noteq> [])"
| "truthy (JArr xs) = True"
| "truthy (JObj ps) = True"
| "truthy (JError m ps) = True"
| "truthy (JRpcError c m d) = True"

fun typeof :: "jsval \<Rightarrow> string" where
  "typeof JUndefined = ''undefined''"
| "typeof JNull = ''object''"
| "typeof (JBool b) = ''boolean''"
| "typeof (JNum n) = ''number''"
| "typeof (JStr s) = ''string''"
| "typeof (JArr xs) = ''object''"
| "typeof (JObj ps) = ''object''"
| "typeof (JError m ps) = ''object''"
| "typeof (JRpcError c m d) = ''object''"

fun isArray :: "jsval \<Rightarrow> bool" where
  "isArray (JArr xs) = True"
| "isArray v = False"

fun instanceof_Error :: "jsval \<Rightarrow> bool" where
  "instanceof_Error (JError m ps) = True"
| "instanceof_Error (JRpcError c m d) = True"
| "instanceof_Error v = False"

fun instanceof_EthereumRpcError :: "jsval \<Rightarrow> bool" where
  "instanceof_EthereumRpcError (JRpcError c m d) = True"
| "instanceof_EthereumRpcError v = False"

text \<open>Reading, assigning and deleting a property of a property list.\<close>

fun lookup :: "props \<Rightarrow> string \<Rightarrow> jsval" where
  "lookup [] k = JUndefined"
| "lookup ((k', v) # ps) k = (if k' = k then v else lookup ps k)"

fun assign_prop :: "props \<Rightarrow> string \<Rightarrow> jsval \<Rightarrow> props" where
  "assign_prop [] k v = [(k, v)]"
| "assign_prop ((k', v') # ps) k v = (if k' = k then (k, v) # ps else (k', v') # assign_prop ps k v)"

fun remove_prop :: "props \<Rightarrow> string \<Rightarrow> props" where
  "remove_prop [] k = []"
| "remove_prop ((k', v') # ps) k = (if k' = k then remove_prop ps k else (k', v') # remove_prop ps k)"

text \<open>\<^verbatim>\<open>value.key\<close>, and the own enumerable properties that \<^verbatim>\<open>{ ...value }\<close> copies.\<close>

fun get_prop :: "jsval \<Rightarrow> string \<Rightarrow> jsval" where
  "get_prop (JObj ps) k = lookup ps k"
| "get_prop (JError m ps) k = (if k = ''message'' then JStr m else lookup ps k)"
| "get_prop (JRpcError c m d) k =
     (if k = ''code'' then JNum c else if k = ''message'' then JStr m
      else if k = ''data'' then d else JUndefined)"
| "get_prop v k = JUndefined"

fun own_props :: "jsval \<Rightarrow> props" where
  "own_props (JObj ps) = ps"
| "own_props (JError m ps) = ps"
| "own_props (JRpcError c m d) =
     (''code'', JNum c) # (if d = JUndefined then [] else [(''data'', d)])"
| "own_props v = []"

section \<open>The error library\<close>

text \<open>
  The engine imports \<^verbatim>\<open>errorCodes\<close>, \<^verbatim>\<open>EthereumRpcError\<close>, \<^verbatim>\<open>serializeError\<close> and
  \<^verbatim>\<open>isValidCode\<close> from the package \<^verbatim>\<open>eth-rpc-errors\<close>, which is not part of the
  repository. They are parameters of the model: the two codes the engine uses, the code
  table's validity test on integers (a code that is not an integer is not valid), the
  serializer, and the constructor of the class. The constructor checks its arguments:
  \<open>newErrorThrows L c m d\<close> is the value that \<^verbatim>\<open>new EthereumRpcError(c, m, d)\<close> throws, and
  \<open>None\<close> when it builds \<open>JRpcError c m d\<close>. It is consulted where the engine passes a
  message that is not its own, the message of an \<^verbatim>\<open>Error\<close> that a middleware threw; with
  the messages of \<^verbatim>\<open>errorMessages\<close>, which are not empty, and the codes of
  \<^verbatim>\<open>errorCodes.rpc\<close>, the constructor builds the error. Every theorem below that
  names a library \<open>L\<close> holds for every library.
\<close>

record eth_rpc_errors =
  rpc_internal :: int
  rpc_invalidRequest :: int
  validCode :: "int \<Rightarrow> bool"
  serializeError :: "jsval \<Rightarrow> jsval"
  newErrorThrows :: "int \<Rightarrow> string \<Rightarrow> jsval \<Rightarrow> jsval option"

definition isValidCode :: "eth_rpc_errors \<Rightarrow> jsval \<Rightarrow> bool" where
  "isValidCode L code = (case code of JNum n \<Rightarrow> validCode L n | _ \<Rightarrow> False)"

text \<open>
  One library, to evaluate the engine on concrete inputs: the JSON-RPC 2.0 codes
  \<open>-32603\<close> and \<open>-32600\<close>, the server-error range and the standard codes as valid, a
  serializer that keeps code, message and data of an \<^verbatim>\<open>EthereumRpcError\<close> and wraps
  anything else under the internal code, and a constructor that throws an \<^verbatim>\<open>Error\<close> when
  the message is empty.
\<close>

definition emptyMessage :: string where
  "emptyMessage = [CHR 0x22] @ ''message'' @ [CHR 0x22] @ '' must be a nonempty string.''"

definition example_lib :: eth_rpc_errors where
  "example_lib = \<lparr>
     rpc_internal = -32603,
     rpc_invalidRequest = -32600,
     validCode = (\<lambda>n. (-32099 \<le> n \<and> n \<le> -32000) \<or> n \<in> {-32700, -32600, -32601, -32602, -32603}),
     serializeError = (\<lambda>e. case e of
         JRpcError c m d \<Rightarrow> JObj ((''code'', JNum c) # (''message'', JStr m) #
                              (if d = JUndefined then [] else [(''data'', d)]))
       | _ \<Rightarrow> JObj [(''code'', JNum (-32603)),
                    (''message'', (if typeof (get_prop e ''message'') = ''string''
                                       \<and> truthy (get_prop e ''message'')
                                   then get_prop e ''message''
                                   else JStr ''Internal JSON-RPC error.'')),
                    (''data'', JObj [(''originalError'', e)])]),
     newErrorThrows = (\<lambda>c m d. if m = [] then Some (JError emptyMessage []) else None) \<rparr>"

section \<open>Error messages\<close>

definition invalidReturnHandler :: "jsval \<Rightarrow> string" where
  "invalidReturnHandler v =
     ''JsonRpcEngine: Return handlers must be functions. Received: '' @ typeof v @ ''.''"

definition noAssignmentToResponse :: string where
  "noAssignmentToResponse =
     ''JsonRpcEngine: The response '' @ [CHR 0x22] @ ''error'' @ [CHR 0x22] @
     '' property must not be directly assigned. Throw errors instead.''"

definition noErrorOrResult :: string where
  "noErrorOrResult = ''JsonRpcEngine: Response has no error or result''"

definition noErrorsToEnd :: string where
  "noErrorsToEnd =
     ''JsonRpcEngine: '' @ [CHR 0x22] @ ''end'' @ [CHR 0x22] @
     '' callback must not be passed any values. Received an error. Throw errors instead.''"

definition nonObjectRequest :: "jsval \<Rightarrow> string" where
  "nonObjectRequest request = ''Requests must be plain objects. Received: '' @ typeof request"

definition nonStringMethod :: "jsval \<Rightarrow> string" where
  "nonStringMethod method = ''Must specify a string method. Received: '' @ typeof method"

definition noValuesToEnd :: "jsval \<Rightarrow> string" where
  "noValuesToEnd v =
     ''JsonRpcEngine: '' @ [CHR 0x22] @ ''end'' @ [CHR 0x22] @
     '' callback must not be passed any values. Received: '' @ typeof v @ ''.''"

definition nothingEndedRequest :: string where
  "nothingEndedRequest = ''JsonRpcEngine: Nothing ended request.''"

definition threwNonError :: string where
  "threwNonError = ''JsonRpcEngine: Middleware threw non-Error value.''"

definition callbackMustBeFunction :: string where
  "callbackMustBeFunction =
     [CHR 0x22] @ ''callback'' @ [CHR 0x22] @ '' must be a function if provided.''"

section \<open>Responses, return handlers and middleware\<close>

text \<open>
  \<^verbatim>\<open>PendingJsonRpcResponse\<close>: \<open>res_result\<close> and \<open>res_error\<close> are \<open>None\<close> when the key is
  absent (\<^verbatim>\<open>'result' in res\<close> is \<open>res_result res \<noteq> None\<close>), so that a key holding
  \<^verbatim>\<open>undefined\<close> differs from a missing one.
\<close>

record response =
  res_id :: jsval
  res_jsonrpc :: jsval
  res_result :: "jsval option"
  res_error :: "jsval option"

text \<open>\<^verbatim>\<open>res.error\<close> as a value, and the test \<^verbatim>\<open>if (res.error)\<close>.\<close>

definition read_error :: "response \<Rightarrow> jsval" where
  "read_error res = (case res_error res of Some v \<Rightarrow> v | None \<Rightarrow> JUndefined)"

definition has_error :: "response \<Rightarrow> bool" where
  "has_error res = truthy (read_error res)"

text \<open>
  A return handler is a function of no argument with the request and the response in
  its scope: \<open>hrun\<close> gives the response it leaves behind and the value it throws, if it
  throws (what it may assign to the request is left out: the engine does not read the
  request again). \<open>hname\<close> identifies the handler in the record of invocations that the
  model keeps beside the engine's state.
\<close>

record handler =
  hname :: string
  hrun :: "props \<Rightarrow> response \<Rightarrow> response \<times> jsval option"

text \<open>
  A middleware is opaque code that receives \<^verbatim>\<open>(req, res, end)\<close>. What the engine can
  see of one call is modelled as a script chosen from the request and response it is
  given: assignments to and deletions from \<^verbatim>\<open>req\<close> and \<^verbatim>\<open>res\<close>, calls of \<^verbatim>\<open>end\<close>, and
  at last the value returned or thrown. \<open>End v\<close> is a call \<^verbatim>\<open>end(v)\<close> whose exception, if
  \<^verbatim>\<open>end\<close> throws, leaves the middleware as its own; \<open>TryEnd v\<close> is the same call inside
  \<^verbatim>\<open>try { } catch { }\<close>. Every middleware and handler settles: one that never does leaves
  the request pending and is outside the model.
\<close>

datatype returned = RetValue jsval | RetHandler handler

datatype action =
    SetResult jsval
  | DeleteResult
  | SetError jsval
  | DeleteError
  | SetReq string jsval
  | DeleteReq string
  | End jsval
  | TryEnd jsval

datatype settle = Return returned | Throw jsval

type_synonym middleware = "props \<Rightarrow> response \<Rightarrow> action list \<times> settle"

section \<open>The engine\<close>

subsection \<open>\<^verbatim>\<open>_validateEndState\<close> and \<^verbatim>\<open>_processMiddlewareError\<close>\<close>

text \<open>The value \<^verbatim>\<open>_validateEndState\<close> throws, or \<open>None\<close> when it returns.\<close>

definition validateEndState :: "eth_rpc_errors \<Rightarrow> props \<Rightarrow> response \<Rightarrow> jsval \<Rightarrow> jsval option" where
  "validateEndState L req res endArg =
     (if instanceof_Error endArg then
        Some (JRpcError (rpc_internal L) noErrorsToEnd
               (JObj [(''request'', JObj req), (''endCallbackCalledWith'', endArg)]))
      else if truthy endArg then
        Some (JRpcError (rpc_internal L) (noValuesToEnd endArg)
               (JObj [(''request'', JObj req), (''endCallbackCalledWith'', endArg)]))
      else if has_error res then
        Some (JRpcError (rpc_internal L) noAssignmentToResponse
               (JObj [(''request'', JObj req), (''responseError'', read_error res)]))
      else None)"

text \<open>
  \<^verbatim>\<open>_processMiddlewareError\<close>: the three branches of its \<^verbatim>\<open>instanceof\<close> tests, an
  \<^verbatim>\<open>EthereumRpcError\<close>, another \<^verbatim>\<open>Error\<close>, and a value that is not an \<^verbatim>\<open>Error\<close>. \<open>Inr\<close>
  is the response with the error attached; \<open>Inl\<close> is the value it throws, when the
  constructor rejects the message of the \<^verbatim>\<open>Error\<close>: nothing is assigned then.
\<close>

fun processMiddlewareError :: "eth_rpc_errors \<Rightarrow> props \<Rightarrow> response \<Rightarrow> jsval
    \<Rightarrow> jsval + response" where
  "processMiddlewareError L req res (JRpcError c m d) =
     Inr (res\<lparr>res_error := Some (JRpcError c m d)\<rparr>)"
| "processMiddlewareError L req res (JError m ps) =
     (let code = lookup ps ''code'';
          c = (if isValidCode L code then (case code of JNum n \<Rightarrow> n | _ \<Rightarrow> rpc_internal L)
               else rpc_internal L);
          d = JObj [(''request'', JObj req), (''originalError'', JError m ps)]
      in case newErrorThrows L c m d of
           Some thrown \<Rightarrow> Inl thrown
         | None \<Rightarrow> Inr (res\<lparr>res_error := Some (JRpcError c m d)\<rparr>))"
| "processMiddlewareError L req res error =
     Inr (res\<lparr>res_error := Some (JRpcError (rpc_internal L) threwNonError
            (JObj [(''request'', JObj req), (''thrownValue'', error)]))\<rparr>)"

subsection \<open>\<^verbatim>\<open>_runMiddleware\<close>\<close>

text \<open>
  The middleware's script, run against the closure \<^verbatim>\<open>end\<close> of \<^verbatim>\<open>_runMiddleware\<close>: the
  result is the request and response as the call leaves them, the flag \<^verbatim>\<open>endCalled\<close>, and
  the exception of an \<open>End\<close> that threw (the rest of the script is then not run).
\<close>

fun run_script :: "eth_rpc_errors \<Rightarrow> props \<Rightarrow> response \<Rightarrow> bool \<Rightarrow> action list
    \<Rightarrow> props \<times> response \<times> bool \<times> jsval option" where
  "run_script L req res endCalled [] = (req, res, endCalled, None)"
| "run_script L req res endCalled (SetResult v # as) =
     run_script L req (res\<lparr>res_result := Some v\<rparr>) endCalled as"
| "run_script L req res endCalled (DeleteResult # as) =
     run_script L req (res\<lparr>res_result := None\<rparr>) endCalled as"
| "run_script L req res endCalled (SetError v # as) =
     run_script L req (res\<lparr>res_error := Some v\<rparr>) endCalled as"
| "run_script L req res endCalled (DeleteError # as) =
     run_script L req (res\<lparr>res_error := None\<rparr>) endCalled as"
| "run_script L req res endCalled (SetReq k v # as) =
     run_script L (assign_prop req k v) res endCalled as"
| "run_script L req res endCalled (DeleteReq k # as) =
     run_script L (remove_prop req k) res endCalled as"
| "run_script L req res endCalled (End v # as) =
     (case validateEndState L req res v of
        Some e \<Rightarrow> (req, res, endCalled, Some e)
      | None \<Rightarrow> run_script L req res True as)"
| "run_script L req res endCalled (TryEnd v # as) =
     (case validateEndState L req res v of
        Some e \<Rightarrow> run_script L req res endCalled as
      | None \<Rightarrow> run_script L req res True as)"

text \<open>
  What \<^verbatim>\<open>await middleware(req, res, end)\<close> gives: the state after the call, \<^verbatim>\<open>endCalled\<close>,
  and the value returned or thrown.
\<close>

definition call_middleware :: "eth_rpc_errors \<Rightarrow> middleware \<Rightarrow> props \<Rightarrow> response
    \<Rightarrow> props \<times> response \<times> bool \<times> settle" where
  "call_middleware L middleware req res =
     (case middleware req res of (script, fin) \<Rightarrow>
        (case run_script L req res False script of
           (req1, res1, endCalled, Some e) \<Rightarrow> (req1, res1, endCalled, Throw e)
         | (req1, res1, endCalled, None) \<Rightarrow> (req1, res1, endCalled, fin)))"

text \<open>\<^verbatim>\<open>if (returnHandler)\<close>.\<close>

fun returned_truthy :: "returned \<Rightarrow> bool" where
  "returned_truthy (RetValue v) = truthy v"
| "returned_truthy (RetHandler h) = True"

text \<open>
  The \<^verbatim>\<open>try\<close> block after the \<^verbatim>\<open>await\<close>, for a middleware that returned \<open>r\<close>: \<open>Inl\<close> is the
  error it throws, \<open>Inr\<close> the handlers collected so far (the deferred promise is resolved
  with \<^verbatim>\<open>[null, false]\<close> then, unless \<^verbatim>\<open>end\<close> resolved it before).
\<close>

definition after_return :: "eth_rpc_errors \<Rightarrow> props \<Rightarrow> response \<Rightarrow> bool \<Rightarrow> returned
    \<Rightarrow> handler list \<Rightarrow> jsval + handler list" where
  "after_return L req res endCalled r returnHandlers =
     (if \<not> endCalled then
        (if has_error res then
           Inl (JRpcError (rpc_internal L) noAssignmentToResponse
                 (JObj [(''request'', JObj req), (''responseError'', read_error res)]))
         else if returned_truthy r then
           (case r of
              RetValue v \<Rightarrow>
                Inl (JRpcError (rpc_internal L) (invalidReturnHandler v)
                      (JObj [(''request'', JObj req)]))
            | RetHandler h \<Rightarrow> Inr (returnHandlers @ [h]))
         else Inr returnHandlers)
      else Inr returnHandlers)"

text \<open>
  \<^verbatim>\<open>_runMiddleware\<close>. \<open>Inr\<close> is the pair it resolves with, and the request, response and
  handler array as it leaves them. The deferred promise keeps the first resolution:
  when \<^verbatim>\<open>end\<close> has run, that is \<^verbatim>\<open>[null, true]\<close>, and the \<^verbatim>\<open>resolve([res.error, true])\<close> of
  the \<^verbatim>\<open>catch\<close> block has no effect. \<open>Inl\<close> is the value it rejects with, when
  \<^verbatim>\<open>_processMiddlewareError\<close> throws out of the \<^verbatim>\<open>catch\<close> block, and the response as it is
  then.
\<close>

definition runMiddleware :: "eth_rpc_errors \<Rightarrow> props \<Rightarrow> response \<Rightarrow> middleware \<Rightarrow> handler list
    \<Rightarrow> jsval \<times> response + (jsval \<times> bool) \<times> props \<times> response \<times> handler list" where
  "runMiddleware L req res middleware returnHandlers =
     (case call_middleware L middleware req res of (req1, res1, endCalled, awaited) \<Rightarrow>
        (case (case awaited of
                 Throw e \<Rightarrow> Inl e
               | Return r \<Rightarrow> after_return L req1 res1 endCalled r returnHandlers) of
           Inl e \<Rightarrow>
             (case processMiddlewareError L req1 res1 e of
                Inl thrown \<Rightarrow> Inl (thrown, res1)
              | Inr res2 \<Rightarrow>
                  Inr ((if endCalled then (JNull, True) else (read_error res2, True)),
                       req1, res2, returnHandlers))
         | Inr hs \<Rightarrow>
             Inr ((if endCalled then (JNull, True) else (JNull, False)), req1, res1, hs)))"

subsection \<open>\<^verbatim>\<open>_runAllMiddleware\<close>, \<^verbatim>\<open>_runReturnHandlers\<close>, \<^verbatim>\<open>_checkForCompletion\<close>\<close>

text \<open>
  The loop of \<^verbatim>\<open>_runAllMiddleware\<close> over what is left of the stack, from the current
  \<^verbatim>\<open>[error, isComplete]\<close>; the handlers are in the order they were pushed. A rejection
  of \<^verbatim>\<open>_runMiddleware\<close> ends the loop and is the rejection of \<^verbatim>\<open>_runAllMiddleware\<close>.
\<close>

fun middleware_loop :: "eth_rpc_errors \<Rightarrow> props \<Rightarrow> response \<Rightarrow> handler list \<Rightarrow> jsval \<times> bool
    \<Rightarrow> middleware list
    \<Rightarrow> jsval \<times> response + (jsval \<times> bool) \<times> props \<times> response \<times> handler list" where
  "middleware_loop L req res returnHandlers ec [] = Inr (ec, req, res, returnHandlers)"
| "middleware_loop L req res returnHandlers ec (m # ms) =
     (case runMiddleware L req res m returnHandlers of
        Inl rejected \<Rightarrow> Inl rejected
      | Inr ((error, isComplete), req1, res1, hs) \<Rightarrow>
          (if isComplete then Inr ((error, isComplete), req1, res1, hs)
           else middleware_loop L req1 res1 hs (error, isComplete) ms))"

definition runAllMiddleware :: "eth_rpc_errors \<Rightarrow> props \<Rightarrow> response \<Rightarrow> middleware list
    \<Rightarrow> jsval \<times> response + (jsval \<times> bool \<times> handler list) \<times> props \<times> response" where
  "runAllMiddleware L req res middlewareStack =
     (case middleware_loop L req res [] (JNull, False) middlewareStack of
        Inl rejected \<Rightarrow> Inl rejected
      | Inr ((error, isComplete), req1, res1, returnHandlers) \<Rightarrow>
          Inr ((error, isComplete, rev returnHandlers), req1, res1))"

text \<open>
  \<^verbatim>\<open>_runReturnHandlers\<close>: the response after the handlers that ran, their names in the
  order of invocation, and the value thrown by the handler that stopped the loop.
\<close>

fun runReturnHandlers :: "props \<Rightarrow> response \<Rightarrow> handler list
    \<Rightarrow> response \<times> string list \<times> jsval option" where
  "runReturnHandlers req res [] = (res, [], None)"
| "runReturnHandlers req res (h # hs) =
     (case hrun h req res of
        (res1, Some e) \<Rightarrow> (res1, [hname h], Some e)
      | (res1, None) \<Rightarrow>
          (case runReturnHandlers req res1 hs of
             (res2, invoked, thrown) \<Rightarrow> (res2, hname h # invoked, thrown)))"

definition checkForCompletion :: "eth_rpc_errors \<Rightarrow> props \<Rightarrow> response \<Rightarrow> bool \<Rightarrow> jsval option" where
  "checkForCompletion L req res isComplete =
     (if res_result res = None \<and> res_error res = None then
        Some (JRpcError (rpc_internal L) noErrorOrResult (JObj [(''request'', JObj req)]))
      else if \<not> isComplete then
        Some (JRpcError (rpc_internal L) nothingEndedRequest (JObj [(''request'', JObj req)]))
      else None)"

subsection \<open>\<^verbatim>\<open>_processRequest\<close>, \<^verbatim>\<open>_handle\<close>, \<^verbatim>\<open>_promiseHandle\<close>, \<^verbatim>\<open>_handleBatch\<close>, \<^verbatim>\<open>handle\<close>\<close>

text \<open>
  \<^verbatim>\<open>_processRequest\<close>: the response as it leaves it, the handlers invoked, and the value
  it throws, if any. A rejection of \<^verbatim>\<open>_runAllMiddleware\<close> leaves it before the
  completion check and the handlers.
\<close>

definition processRequest :: "eth_rpc_errors \<Rightarrow> middleware list \<Rightarrow> props \<Rightarrow> response
    \<Rightarrow> response \<times> string list \<times> jsval option" where
  "processRequest L stack req res =
     (case runAllMiddleware L req res stack of
        Inl (rejected, res1) \<Rightarrow> (res1, [], Some rejected)
      | Inr ((error, isComplete, returnHandlers), req1, res1) \<Rightarrow>
          (case checkForCompletion L req1 res1 isComplete of
             Some e \<Rightarrow> (res1, [], Some e)
           | None \<Rightarrow>
               (case runReturnHandlers req1 res1 returnHandlers of
                  (res2, invoked, Some e) \<Rightarrow> (res2, invoked, Some e)
                | (res2, invoked, None) \<Rightarrow>
                    (if truthy error then (res2, invoked, Some error)
                     else (res2, invoked, None)))))"

text \<open>
  The last block of \<^verbatim>\<open>_handle\<close>: \<^verbatim>\<open>if (error) { delete res.result; if (!res.error)
  res.error = serializeError(error) }\<close>.
\<close>

definition finalize :: "eth_rpc_errors \<Rightarrow> jsval \<Rightarrow> response \<Rightarrow> response" where
  "finalize L error res =
     (if truthy error then
        (let res1 = res\<lparr>res_result := None\<rparr> in
         if \<not> has_error res1 then res1\<lparr>res_error := Some (serializeError L error)\<rparr>
         else res1)
      else res)"

text \<open>
  \<^verbatim>\<open>_handle\<close>, named \<open>handle_request\<close> here, calls its callback once on every path: the
  result is the pair \<^verbatim>\<open>(error, response)\<close> it passes, with the names of the handlers
  invoked. \<open>not_plain_object\<close> is its first test, \<open>new_response\<close> the response it
  starts from. An error object holds the request as it is when the error is built.
\<close>

definition not_plain_object :: "jsval \<Rightarrow> bool" where
  "not_plain_object callerReq =
     (\<not> truthy callerReq \<or> isArray callerReq \<or> typeof callerReq \<noteq> ''object'')"

definition new_response :: "props \<Rightarrow> response" where
  "new_response req =
     \<lparr>res_id = lookup req ''id'', res_jsonrpc = lookup req ''jsonrpc'',
      res_result = None, res_error = None\<rparr>"

definition handle_request :: "eth_rpc_errors \<Rightarrow> middleware list \<Rightarrow> jsval
    \<Rightarrow> jsval \<times> response \<times> string list" where
  "handle_request L stack callerReq =
     (if not_plain_object callerReq then
        (let error = JRpcError (rpc_invalidRequest L) (nonObjectRequest callerReq)
                       (JObj [(''request'', callerReq)])
         in (error,
             \<lparr>res_id = JUndefined, res_jsonrpc = JStr ''2.0'', res_result = None,
              res_error = Some error\<rparr>, []))
      else if typeof (get_prop callerReq ''method'') \<noteq> ''string'' then
        (let error = JRpcError (rpc_invalidRequest L)
                       (nonStringMethod (get_prop callerReq ''method''))
                       (JObj [(''request'', callerReq)])
         in (error,
             \<lparr>res_id = get_prop callerReq ''id'', res_jsonrpc = JStr ''2.0'', res_result = None,
              res_error = Some error\<rparr>, []))
      else
        (let req = own_props callerReq;
             res = new_response req
         in case processRequest L stack req res of
              (res1, invoked, thrown) \<Rightarrow>
                (let error = (case thrown of Some e \<Rightarrow> e | None \<Rightarrow> JNull)
                 in (error, finalize L error res1, invoked))))"

datatype 'a promise = Fulfilled 'a | Rejected jsval

text \<open>\<^verbatim>\<open>_promiseHandle\<close>: the callback it passes resolves the promise with the response.\<close>

definition promiseHandle :: "eth_rpc_errors \<Rightarrow> middleware list \<Rightarrow> jsval \<Rightarrow> response promise" where
  "promiseHandle L stack req =
     (case handle_request L stack req of (error, res, invoked) \<Rightarrow> Fulfilled res)"

text \<open>
  \<^verbatim>\<open>Promise.all\<close> over the promises of \<^verbatim>\<open>_promiseHandle\<close>, in the order of the requests:
  the first rejection rejects the whole.
\<close>

fun promise_all :: "'a promise list \<Rightarrow> 'a list promise" where
  "promise_all [] = Fulfilled []"
| "promise_all (Rejected e # ps) = Rejected e"
| "promise_all (Fulfilled x # ps) =
     (case promise_all ps of Fulfilled xs \<Rightarrow> Fulfilled (x # xs) | Rejected e \<Rightarrow> Rejected e)"

text \<open>
  The second argument of \<^verbatim>\<open>handle\<close> is typed \<^verbatim>\<open>any\<close>: a function, or a value that is not
  one (\<open>CbValue JUndefined\<close> when it is left out).
\<close>

datatype callback = CbFunction | CbValue jsval

fun cb_truthy :: "callback \<Rightarrow> bool" where
  "cb_truthy CbFunction = True"
| "cb_truthy (CbValue v) = truthy v"

fun cb_typeof :: "callback \<Rightarrow> string" where
  "cb_typeof CbFunction = ''function''"
| "cb_typeof (CbValue v) = typeof v"

text \<open>
  What a call of \<^verbatim>\<open>handle\<close> does: it throws, or it calls the callback with an error and
  one response or an array of responses, or it returns a promise of them. The callback
  is taken to return normally. \<^verbatim>\<open>asMiddleware\<close> is not modelled.
\<close>

datatype handled =
    Threw jsval
  | CalledBack jsval response
  | CalledBackBatch jsval "response list"
  | Promised "response promise"
  | PromisedBatch "response list promise"

definition handleBatch :: "eth_rpc_errors \<Rightarrow> middleware list \<Rightarrow> jsval list \<Rightarrow> bool \<Rightarrow> handled" where
  "handleBatch L stack reqs cb =
     (case promise_all (map (promiseHandle L stack) reqs) of
        Fulfilled responses \<Rightarrow>
          (if cb then CalledBackBatch JNull responses else PromisedBatch (Fulfilled responses))
      | Rejected error \<Rightarrow>
          (if cb then CalledBackBatch error [] else PromisedBatch (Rejected error)))"

definition handle :: "eth_rpc_errors \<Rightarrow> middleware list \<Rightarrow> jsval \<Rightarrow> callback \<Rightarrow> handled" where
  "handle L stack req cb =
     (if cb_truthy cb \<and> cb_typeof cb \<noteq> ''function'' then
        Threw (JError callbackMustBeFunction [])
      else
        (case req of
           JArr reqs \<Rightarrow> handleBatch L stack reqs (cb_truthy cb)
         | _ \<Rightarrow>
             (if cb_truthy cb then
                (case handle_request L stack req of
                   (error, res, invoked) \<Rightarrow> CalledBack error res)
              else Promised (promiseHandle L stack req))))"


section \<open>The request copy and what it shares with the caller's request\<close>

text \<open>
  \<^verbatim>\<open>const req: JsonRpcRequest<unknown> = { ...callerReq }\<close> makes a new object with the own
  properties of the caller's object. A property whose value is an object holds a
  reference, and the copy holds the same reference. Values alone cannot show that, so
  here objects live in a store, addressed by their index, and a property holds a
  primitive value or an address.
\<close>

datatype hval = HPrim jsval | HRef nat

type_synonym obj = "(string \<times> hval) list"

type_synonym store = "obj list"

fun hlookup :: "obj \<Rightarrow> string \<Rightarrow> hval option" where
  "hlookup [] k = None"
| "hlookup ((k', v) # ps) k = (if k' = k then Some v else hlookup ps k)"

fun hassign :: "obj \<Rightarrow> string \<Rightarrow> hval \<Rightarrow> obj" where
  "hassign [] k v = [(k, v)]"
| "hassign ((k', v') # ps) k v = (if k' = k then (k, v) # ps else (k', v') # hassign ps k v)"

fun hremove :: "obj \<Rightarrow> string \<Rightarrow> obj" where
  "hremove [] k = []"
| "hremove ((k', v') # ps) k = (if k' = k then hremove ps k else (k', v') # hremove ps k)"

text \<open>\<^verbatim>\<open>{ ...callerReq }\<close>: a new object at a fresh address, with the same properties.\<close>

definition spread_copy :: "store \<Rightarrow> nat \<Rightarrow> nat \<times> store" where
  "spread_copy s callerReq = (length s, s @ [s ! callerReq])"

text \<open>
  The object that \<^verbatim>\<open>root.k1.k2...kn\<close> denotes, if every step is a reference to an
  object.
\<close>

fun resolve :: "store \<Rightarrow> nat \<Rightarrow> string list \<Rightarrow> nat option" where
  "resolve s a [] = (if a < length s then Some a else None)"
| "resolve s a (k # ks) =
     (if a < length s then
        (case hlookup (s ! a) k of Some (HRef b) \<Rightarrow> resolve s b ks | _ \<Rightarrow> None)
      else None)"

text \<open>
  What a middleware or a return handler can do to the request it receives:
  \<^verbatim>\<open>req.k1...kn.k = v\<close> and \<^verbatim>\<open>delete req.k1...kn.k\<close>. When the path does not lead to an
  object, JavaScript throws a \<^verbatim>\<open>TypeError\<close> and no object changes.
\<close>

datatype req_write = Assign "string list" string hval | Delete "string list" string

fun apply_write :: "nat \<Rightarrow> store \<Rightarrow> req_write \<Rightarrow> store" where
  "apply_write req s (Assign path k v) =
     (case resolve s req path of Some a \<Rightarrow> s[a := hassign (s ! a) k v] | None \<Rightarrow> s)"
| "apply_write req s (Delete path k) =
     (case resolve s req path of Some a \<Rightarrow> s[a := hremove (s ! a) k] | None \<Rightarrow> s)"

text \<open>
  The store after \<^verbatim>\<open>_handle\<close> has processed the object at address \<open>callerReq\<close>: the engine
  makes the copy, hands it to the middleware, whose writes come in the order they are
  made, and never assigns to a property of either object itself. \<open>None\<close> when there is
  no object at \<open>callerReq\<close>.
\<close>

definition handle_store :: "store \<Rightarrow> nat \<Rightarrow> req_write list \<Rightarrow> store option" where
  "handle_store s callerReq writes =
     (if callerReq < length s then
        (case spread_copy s callerReq of (req, s1) \<Rightarrow> Some (foldl (apply_write req) s1 writes))
      else None)"

text \<open>What the caller reads at \<^verbatim>\<open>callerReq.k1...kn.k\<close>.\<close>

definition read_path :: "store \<Rightarrow> nat \<Rightarrow> string list \<Rightarrow> string \<Rightarrow> hval option" where
  "read_path s a path k =
     (case resolve s a path of Some b \<Rightarrow> hlookup (s ! b) k | None \<Rightarrow> None)"

text \<open>No property of any object of the store refers to the object at \<open>a\<close>.\<close>

definition unreferenced :: "nat \<Rightarrow> store \<Rightarrow> bool" where
  "unreferenced a s = (\<forall>ob \<in> set s. \<forall>(k, v) \<in> set ob. v \<noteq> HRef a)"

fun written :: "req_write \<Rightarrow> hval option" where
  "written (Assign path k v) = Some v"
| "written (Delete path k) = None"

section \<open>Requests that pass validation, and the inputs of the examples\<close>

text \<open>A request that passes both tests of \<^verbatim>\<open>_handle\<close>: an object with a string method.\<close>

definition is_request :: "jsval \<Rightarrow> bool" where
  "is_request callerReq =
     (truthy callerReq \<and> \<not> isArray callerReq \<and> typeof callerReq = ''object''
      \<and> typeof (get_prop callerReq ''method'') = ''string'')"

text \<open>\<^verbatim>\<open>{ jsonrpc: '2.0', id: 1, method: 'm' }\<close>\<close>

definition request_m :: jsval where
  "request_m = JObj [(''jsonrpc'', JStr ''2.0''), (''id'', JNum 1), (''method'', JStr ''m'')]"

text \<open>Handlers that do nothing, and one that throws the string \<^verbatim>\<open>'X'\<close>.\<close>

definition hA :: handler where
  "hA = \<lparr>hname = ''hA'', hrun = (\<lambda>req res. (res, None))\<rparr>"

definition hB :: handler where
  "hB = \<lparr>hname = ''hB'', hrun = (\<lambda>req res. (res, None))\<rparr>"

definition hX :: handler where
  "hX = \<lparr>hname = ''hX'', hrun = (\<lambda>req res. (res, Some (JStr ''X'')))\<rparr>"

text \<open>
  \<^verbatim>\<open>() => { res.result = [n, res.result]; }\<close>: a handler that leaves its name on the
  result.
\<close>

definition tags :: "string \<Rightarrow> handler" where
  "tags n = \<lparr>hname = n, hrun = (\<lambda>req res.
     (res\<lparr>res_result := Some (JArr [JStr n,
         (case res_result res of Some v \<Rightarrow> v | None \<Rightarrow> JUndefined)])\<rparr>, None))\<rparr>"

text \<open>A handler that assigns the string \<^verbatim>\<open>'mine'\<close> to \<^verbatim>\<open>res.error\<close>.\<close>

definition hE :: handler where
  "hE = \<lparr>hname = ''hE'', hrun = (\<lambda>req res. (res\<lparr>res_error := Some (JStr ''mine'')\<rparr>, None))\<rparr>"

text \<open>\<^verbatim>\<open>(req, res, end) => h\<close>: a middleware that registers the handler \<open>h\<close>.\<close>

definition registers :: "handler \<Rightarrow> middleware" where
  "registers h = (\<lambda>req res. ([], Return (RetHandler h)))"

text \<open>\<^verbatim>\<open>(req, res, end) => { res.result = 1; return h; }\<close>\<close>

definition sets_result_and_registers :: "handler \<Rightarrow> middleware" where
  "sets_result_and_registers h = (\<lambda>req res. ([SetResult (JNum 1)], Return (RetHandler h)))"

text \<open>\<^verbatim>\<open>(req, res, end) => { try { end('x'); } catch (_) {} return h; }\<close>\<close>

definition tries_end_and_registers :: "handler \<Rightarrow> middleware" where
  "tries_end_and_registers h = (\<lambda>req res. ([TryEnd (JStr ''x'')], Return (RetHandler h)))"

text \<open>\<^verbatim>\<open>(req, res, end) => { res.result = 1; end(); }\<close>\<close>

definition ends_with_result :: middleware where
  "ends_with_result = (\<lambda>req res. ([SetResult (JNum 1), End JUndefined], Return (RetValue JUndefined)))"

text \<open>\<^verbatim>\<open>(req, res, end) => { res.result = 1; end(); return h; }\<close>\<close>

definition ends_and_returns :: "handler \<Rightarrow> middleware" where
  "ends_and_returns h = (\<lambda>req res. ([SetResult (JNum 1), End JUndefined], Return (RetHandler h)))"

text \<open>\<^verbatim>\<open>(req, res, end) => { throw v; }\<close>\<close>

definition throws :: "jsval \<Rightarrow> middleware" where
  "throws v = (\<lambda>req res. ([], Throw v))"

text \<open>\<^verbatim>\<open>(req, res, end) => { res.result = 1; throw v; }\<close>\<close>

definition sets_result_and_throws :: "jsval \<Rightarrow> middleware" where
  "sets_result_and_throws v = (\<lambda>req res. ([SetResult (JNum 1)], Throw v))"

text \<open>\<^verbatim>\<open>(req, res, end) => { res.result = 42; end(); throw new Error('late'); }\<close>\<close>

definition ends_then_throws :: middleware where
  "ends_then_throws =
     (\<lambda>req res. ([SetResult (JNum 42), End JUndefined], Throw (JError ''late'' [])))"

text \<open>\<^verbatim>\<open>(req, res, end) => { end(v); }\<close>\<close>

definition ends_with_value :: "jsval \<Rightarrow> middleware" where
  "ends_with_value v = (\<lambda>req res. ([End v], Return (RetValue JUndefined)))"

text \<open>\<^verbatim>\<open>(req, res, end) => { try { end('x'); } catch (_) {} res.result = 1; end(); }\<close>\<close>

definition swallows_end_error :: middleware where
  "swallows_end_error =
     (\<lambda>req res. ([TryEnd (JStr ''x''), SetResult (JNum 1), End JUndefined],
                 Return (RetValue JUndefined)))"

text \<open>
  A store with the caller's request at address 0,
  \<^verbatim>\<open>{ method: 'm', params: { x: 0 } }\<close>, and its \<^verbatim>\<open>params\<close> object at address 1.
\<close>

definition caller_store :: store where
  "caller_store =
     [[(''method'', HPrim (JStr ''m'')), (''params'', HRef 1)], [(''x'', HPrim (JNum 0))]]"

section \<open>Unfolding the engine\<close>

lemmas engine_defs =
  handle_def handleBatch_def promiseHandle_def handle_request_def not_plain_object_def
  new_response_def processRequest_def runAllMiddleware_def runMiddleware_def
  call_middleware_def after_return_def validateEndState_def checkForCompletion_def
  finalize_def has_error_def read_error_def isValidCode_def Let_def

lemmas message_defs =
  invalidReturnHandler_def noAssignmentToResponse_def noErrorOrResult_def noErrorsToEnd_def
  nonObjectRequest_def nonStringMethod_def noValuesToEnd_def nothingEndedRequest_def
  threwNonError_def callbackMustBeFunction_def

lemmas example_defs =
  example_lib_def emptyMessage_def request_m_def hA_def hB_def hX_def hE_def tags_def
  registers_def sets_result_and_registers_def tries_end_and_registers_def
  sets_result_and_throws_def ends_with_result_def
  ends_and_returns_def throws_def ends_then_throws_def ends_with_value_def
  swallows_end_error_def

subsection \<open>The loops\<close>

lemma middleware_loop_append:
  "middleware_loop L req res hs ec pre = Inr ((e, False), req1, res1, hs1) \<Longrightarrow>
   middleware_loop L req res hs ec (pre @ ms) = middleware_loop L req1 res1 hs1 (e, False) ms"
proof (induction pre arbitrary: req res hs ec)
  case Nil
  then show ?case by simp
next
  case (Cons m pre)
  show ?case
  proof (cases "runMiddleware L req res m hs")
    case (Inl rejected)
    with Cons.prems show ?thesis by simp
  next
    case (Inr r)
    obtain e' c' req' res' hs' where r: "r = ((e', c'), req', res', hs')"
      by (metis prod.exhaust)
    show ?thesis
    proof (cases c')
      case True
      with Cons.prems Inr r show ?thesis by simp
    next
      case False
      with Cons.prems Inr r
      have "middleware_loop L req' res' hs' (e', False) pre = Inr ((e, False), req1, res1, hs1)"
        by simp
      from Cons.IH [OF this] Inr r False show ?thesis by simp
    qed
  qed
qed

lemma run_script_append:
  "run_script L req res ec as = (req1, res1, ec1, None) \<Longrightarrow>
   run_script L req res ec (as @ bs) = run_script L req1 res1 ec1 bs"
  by (induction L req res ec as rule: run_script.induct) (auto split: option.splits)

lemma handlers_keep_error:
  "\<forall>h \<in> set hs. \<forall>rq r. res_error (fst (hrun h rq r)) = res_error r \<Longrightarrow>
   res_error (fst (runReturnHandlers req res hs)) = res_error res"
proof (induction hs arbitrary: res)
  case Nil
  then show ?case by simp
next
  case (Cons h hs)
  obtain r1 t where h: "hrun h req res = (r1, t)" by (metis prod.exhaust)
  have k: "res_error r1 = res_error res" using Cons.prems h by (metis fst_conv list.set_intros(1))
  have ih: "res_error (fst (runReturnHandlers req r1 hs)) = res_error r1"
    using Cons.IH Cons.prems by simp
  show ?case using h k ih by (cases t) (auto split: prod.splits)
qed


lemma handlers_run_in_order:
  "runReturnHandlers req res hs = (res1, names, t) \<Longrightarrow> \<exists>rest. map hname hs = names @ rest"
proof (induction hs arbitrary: res res1 names t)
  case Nil
  then show ?case by simp
next
  case (Cons h hs)
  obtain r1 t1 where h: "hrun h req res = (r1, t1)" by (metis prod.exhaust)
  show ?case
  proof (cases t1)
    case (Some x)
    with Cons.prems h show ?thesis by auto
  next
    case None
    obtain r2 ns t2 where rest: "runReturnHandlers req r1 hs = (r2, ns, t2)"
      by (metis prod.exhaust)
    from Cons.IH [OF rest] obtain rest' where "map hname hs = ns @ rest'" by blast
    with Cons.prems h None rest show ?thesis by auto
  qed
qed

lemma handlers_returned_names:
  "runReturnHandlers req res hs = (res1, names, None) \<Longrightarrow> names = map hname hs"
  by (induction hs arbitrary: res res1 names) (auto split: prod.splits option.splits)

lemma handlers_stop_at_throw:
  "runReturnHandlers req res pre = (res2, names, None) \<Longrightarrow>
   hrun h req res2 = (res3, Some x) \<Longrightarrow>
   runReturnHandlers req res (pre @ h # post) = (res3, names @ [hname h], Some x)"
  by (induction pre arbitrary: res res2 names) (auto split: prod.splits option.splits)


lemma finalize_keeps_error:
  "has_error res \<Longrightarrow> res_error (finalize L e res) = res_error res"
  by (simp add: finalize_def has_error_def read_error_def Let_def)

lemma finalize_error_shape:
  "truthy e \<Longrightarrow> res_error (finalize L e res) \<noteq> None \<and> res_result (finalize L e res) = None"
  by (auto simp add: finalize_def has_error_def read_error_def Let_def split: option.splits)

lemma runMiddleware_throw:
  "call_middleware L m req res = (req1, res1, endCalled, Throw v) \<Longrightarrow>
   processMiddlewareError L req1 res1 v = Inr res2 \<Longrightarrow>
   runMiddleware L req res m hs =
     Inr ((if endCalled then (JNull, True) else (read_error res2, True)), req1, res2, hs)"
  by (simp add: runMiddleware_def)

text \<open>
  An error that the middleware phase leaves on the response is still there in the
  response passed to the callback, when no handler assigns to the error field.
\<close>

lemma error_reaches_response:
  assumes valid: "is_request callerReq"
    and run: "runAllMiddleware L (own_props callerReq) (new_response (own_props callerReq)) stack
                = Inr ((e, True, hs), req1, res1)"
    and err: "res_error res1 = Some v" "truthy v"
    and keep: "\<forall>h \<in> set hs. \<forall>rq r. res_error (fst (hrun h rq r)) = res_error r"
  shows "res_error (fst (snd (handle_request L stack callerReq))) = Some v"
proof -
  have chk: "checkForCompletion L req1 res1 True = None"
    using err by (simp add: checkForCompletion_def)
  obtain res2 names thrown where rh: "runReturnHandlers req1 res1 hs = (res2, names, thrown)"
    by (metis prod.exhaust)
  have e2: "res_error res2 = Some v"
    using handlers_keep_error [OF keep, of req1 res1] rh err by simp
  then have he: "has_error res2" using err by (simp add: has_error_def read_error_def)
  have "\<exists>x. handle_request L stack callerReq = (x, finalize L x res2, names)"
    using valid run chk rh
    by (cases thrown) (auto simp add: handle_request_def is_request_def not_plain_object_def
        processRequest_def Let_def)
  then show ?thesis using finalize_keeps_error [OF he] e2 by auto
qed



subsection \<open>A middleware that throws\<close>

lemma throw_completes_stack:
  assumes pre: "middleware_loop L req0 res0 [] (JNull, False) before = Inr ((e, False), req1, res1, hs)"
    and call: "call_middleware L m req1 res1 = (req2, res2, endCalled, Throw v)"
    and attached: "processMiddlewareError L req2 res2 v = Inr res3"
  shows "runAllMiddleware L req0 res0 (before @ m # after) =
     Inr (((if endCalled then JNull else read_error res3), True, rev hs), req2, res3)"
  using middleware_loop_append [OF pre, of "m # after"]
    runMiddleware_throw [OF call attached, of hs]
  by (simp add: runAllMiddleware_def)

lemma processMiddlewareError_non_error:
  "\<not> instanceof_Error v \<Longrightarrow>
   processMiddlewareError L req res v =
     Inr (res\<lparr>res_error := Some (JRpcError (rpc_internal L) threwNonError
            (JObj [(''request'', JObj req), (''thrownValue'', v)]))\<rparr>)"
  by (cases v) simp_all

lemma end_with_value_throws:
  assumes script: "m req_in res_in = (as @ End v # bs, fin)"
    and before: "run_script L req_in res_in False as = (req_out, res_out, endCalled, None)"
    and v: "truthy v"
  shows "call_middleware L m req_in res_in =
     (req_out, res_out, endCalled,
      Throw (JRpcError (rpc_internal L)
               (if instanceof_Error v then noErrorsToEnd else noValuesToEnd v)
               (JObj [(''request'', JObj req_out), (''endCallbackCalledWith'', v)])))"
  using script run_script_append [OF before, of "End v # bs"] v
  by (simp add: call_middleware_def validateEndState_def)

text \<open>
  The handlers run after the error is on the response, with the response in their
  scope: one that assigns to \<^verbatim>\<open>res.error\<close> decides the error of the final response.
\<close>

lemma handler_overwrites_error:
  "res_error (fst (snd (handle_request example_lib [registers hE, throws (JStr ''oops'')] request_m)))
     = Some (JStr ''mine'')"
  by (simp add: engine_defs example_defs)

text \<open>
  When the constructor rejects the message of a thrown \<^verbatim>\<open>Error\<close>, here the empty
  message of \<^verbatim>\<open>new Error('')\<close>, \<^verbatim>\<open>_runMiddleware\<close> rejects: no handler runs, and \<^verbatim>\<open>_handle\<close>
  serializes what the constructor threw.
\<close>

lemma empty_message_rejects:
  "handle_request example_lib [sets_result_and_registers hA, throws (JError [] [])] request_m =
     (JError emptyMessage [],
      \<lparr>res_id = JNum 1, res_jsonrpc = JStr ''2.0'', res_result = None,
       res_error = Some (serializeError example_lib (JError emptyMessage []))\<rparr>,
      [])
   \<and> handle_request example_lib [registers hX, sets_result_and_throws (JError [] [])] request_m =
     (JError emptyMessage [],
      \<lparr>res_id = JNum 1, res_jsonrpc = JStr ''2.0'', res_result = None,
       res_error = Some (serializeError example_lib (JError emptyMessage []))\<rparr>,
      [])"
  by (simp add: engine_defs example_defs)

text \<open>
  A call of \<^verbatim>\<open>end\<close> that threw, and whose exception the middleware caught, has not set
  \<^verbatim>\<open>endCalled\<close>: the handler that the middleware returns is collected and runs.
\<close>

lemma caught_end_still_collects:
  "snd (snd (handle_request example_lib
      [registers (tags ''hA''), tries_end_and_registers (tags ''hB''), ends_with_result] request_m))
     = [''hB'', ''hA'']"
  by (simp add: engine_defs example_defs)

subsection \<open>The store\<close>

lemma hlookup_in_set: "hlookup ob k = Some v \<Longrightarrow> (k, v) \<in> set ob"
  by (induction ob) (auto split: if_splits)

lemma hassign_set: "set (hassign ob k v) \<subseteq> insert (k, v) (set ob)"
  by (induction ob k v rule: hassign.induct) (auto split: if_splits)

lemma hremove_set: "set (hremove ob k) \<subseteq> set ob"
  by (induction ob k rule: hremove.induct) (auto split: if_splits)

lemma resolve_target:
  "resolve s r path = Some b \<Longrightarrow>
   b < length s \<and> (b = r \<or> (\<exists>ob \<in> set s. \<exists>k. (k, HRef b) \<in> set ob))"
proof (induction path arbitrary: r)
  case Nil
  then show ?case by (simp split: if_splits)
next
  case (Cons k ks)
  from Cons.prems obtain c where r: "r < length s" and l: "hlookup (s ! r) k = Some (HRef c)"
    and rest: "resolve s c ks = Some b"
    by (auto split: if_splits option.splits hval.splits)
  from Cons.IH [OF rest] have b: "b < length s"
    and alt: "b = c \<or> (\<exists>ob \<in> set s. \<exists>k. (k, HRef b) \<in> set ob)" by simp_all
  have "\<exists>ob \<in> set s. \<exists>k. (k, HRef c) \<in> set ob"
    using hlookup_in_set [OF l] r by (metis nth_mem)
  with alt b show ?case by blast
qed

lemma resolve_misses_unreferenced:
  assumes "unreferenced a s" "r \<noteq> a" "resolve s r path = Some b"
  shows "b \<noteq> a \<and> b < length s"
  using resolve_target [OF assms(3)] assms(1,2) by (auto simp add: unreferenced_def)

lemma unreferenced_update:
  assumes u: "unreferenced a s" and ob: "\<forall>(k, v) \<in> set ob. v \<noteq> HRef a"
  shows "unreferenced a (s[b := ob])"
  unfolding unreferenced_def
proof
  fix x assume "x \<in> set (s[b := ob])"
  then have "x = ob \<or> x \<in> set s" using set_update_subset_insert by fastforce
  then show "\<forall>(k, v) \<in> set x. v \<noteq> HRef a" using u ob by (auto simp add: unreferenced_def)
qed

lemma apply_write_keeps:
  assumes u: "unreferenced a s" and r: "r \<noteq> a" and w: "written w \<noteq> Some (HRef a)"
  shows "unreferenced a (apply_write r s w) \<and> apply_write r s w ! a = s ! a
         \<and> length (apply_write r s w) = length s"
proof (cases w)
  case (Assign path k v)
  show ?thesis
  proof (cases "resolve s r path")
    case None
    with Assign u show ?thesis by simp
  next
    case (Some b)
    from resolve_misses_unreferenced [OF u r Some] have b: "b \<noteq> a" "b < length s" by simp_all
    have old: "\<forall>(k, v) \<in> set (s ! b). v \<noteq> HRef a"
      using u b(2) by (auto simp add: unreferenced_def)
    have "\<forall>(k', v') \<in> set (hassign (s ! b) k v). v' \<noteq> HRef a"
      using old w Assign hassign_set [of "s ! b" k v] by auto
    from unreferenced_update [OF u this] Assign Some b show ?thesis by simp
  qed
next
  case (Delete path k)
  show ?thesis
  proof (cases "resolve s r path")
    case None
    with Delete u show ?thesis by simp
  next
    case (Some b)
    from resolve_misses_unreferenced [OF u r Some] have b: "b \<noteq> a" "b < length s" by simp_all
    have old: "\<forall>(k, v) \<in> set (s ! b). v \<noteq> HRef a"
      using u b(2) by (auto simp add: unreferenced_def)
    have "\<forall>(k', v') \<in> set (hremove (s ! b) k). v' \<noteq> HRef a"
      using old hremove_set [of "s ! b" k] by auto
    from unreferenced_update [OF u this] Delete Some b show ?thesis by simp
  qed
qed

lemma writes_keep:
  assumes "unreferenced a s" "r \<noteq> a" "\<forall>w \<in> set ws. written w \<noteq> Some (HRef a)"
  shows "foldl (apply_write r) s ws ! a = s ! a"
  using assms
proof (induction ws arbitrary: s)
  case Nil
  then show ?case by simp
next
  case (Cons w ws)
  have w: "written w \<noteq> Some (HRef a)" using Cons.prems(3) by simp
  from apply_write_keeps [OF Cons.prems(1) Cons.prems(2) w]
  have u: "unreferenced a (apply_write r s w)" and k: "apply_write r s w ! a = s ! a" by simp_all
  have "foldl (apply_write r) (apply_write r s w) ws ! a = apply_write r s w ! a"
    using Cons.IH [OF u Cons.prems(2)] Cons.prems(3) by simp
  with k show ?case by simp
qed

subsection \<open>What always holds of a single request\<close>

text \<open>
  \<^verbatim>\<open>handle\<close> with a single request and no callback returns the promise of
  \<^verbatim>\<open>_promiseHandle\<close>, which is never rejected and is resolved with the response of
  \<^verbatim>\<open>_handle\<close>; and whenever the error that \<^verbatim>\<open>_handle\<close> passes on is truthy, the response
  holds an error and no result.
\<close>

lemma single_request_always_resolves:
  "(\<not> isArray req \<and> \<not> cb_truthy cb \<longrightarrow>
      handle L stack req cb = Promised (Fulfilled (fst (snd (handle_request L stack req)))))
   \<and> (\<forall>e. promiseHandle L stack req \<noteq> Rejected e)
   \<and> (truthy (fst (handle_request L stack req)) \<longrightarrow>
        res_error (fst (snd (handle_request L stack req))) \<noteq> None
        \<and> res_result (fst (snd (handle_request L stack req))) = None)"
proof (intro conjI impI allI)
  assume "\<not> isArray req \<and> \<not> cb_truthy cb"
  then show "handle L stack req cb = Promised (Fulfilled (fst (snd (handle_request L stack req))))"
    by (cases req) (auto simp add: handle_def promiseHandle_def split: prod.splits)
next
  fix e show "promiseHandle L stack req \<noteq> Rejected e"
    by (simp add: promiseHandle_def split: prod.splits)
next
  assume t: "truthy (fst (handle_request L stack req))"
  show "res_error (fst (snd (handle_request L stack req))) \<noteq> None"
    using t finalize_error_shape [of _ L]
    by (auto simp add: handle_request_def Let_def split: prod.splits if_splits)
  show "res_result (fst (snd (handle_request L stack req))) = None"
    using t finalize_error_shape [of _ L]
    by (auto simp add: handle_request_def Let_def split: prod.splits if_splits)
qed

section \<open>The claims\<close>

subsection \<open>The pair of error and response\<close>

text \<open>
  C1 at the input that breaks it. The middleware sets \<^verbatim>\<open>res.result = 42\<close>, calls \<^verbatim>\<open>end()\<close>
  and then throws \<^verbatim>\<open>new Error('late')\<close>. \<^verbatim>\<open>_handle\<close> settles, as it always does, but
  with the error \<^verbatim>\<open>null\<close> and a response that holds an error: the error is not non-null
  exactly when the response holds one.
\<close>

theorem ends_then_throws_null_error:
  "fst (handle_request example_lib [ends_then_throws] request_m) = JNull
   \<and> has_error (fst (snd (handle_request example_lib [ends_then_throws] request_m)))
   \<and> handle example_lib [ends_then_throws] request_m (CbValue JUndefined)
       = Promised (Fulfilled (fst (snd (handle_request example_lib [ends_then_throws] request_m))))"
  by (simp add: engine_defs example_defs)

subsection \<open>Result and error of the final response\<close>

text \<open>
  C2 at the input that breaks it, the same middleware. The deferred promise is already
  resolved with \<^verbatim>\<open>[null, true]\<close> when the middleware throws; the \<^verbatim>\<open>catch\<close> block of
  \<^verbatim>\<open>_runMiddleware\<close> attaches the error to the response and its
  \<^verbatim>\<open>resolve([res.error, true])\<close> has no effect; \<^verbatim>\<open>_handle\<close> sees no error and does not
  delete the result. The final response has both fields.
\<close>

theorem ends_then_throws_result_and_error:
  "handle_request example_lib [ends_then_throws] request_m =
     (JNull,
      \<lparr>res_id = JNum 1, res_jsonrpc = JStr ''2.0'', res_result = Some (JNum 42),
       res_error = Some (JRpcError (-32603) ''late''
          (JObj [(''request'', request_m), (''originalError'', JError ''late'' [])]))\<rparr>,
      [])"
  by (simp add: engine_defs example_defs)

subsection \<open>The order of the return handlers\<close>




subsection \<open>A middleware that throws an error with a code\<close>

text \<open>
  C4, as amended. When the middlewares before \<open>m\<close> have not completed the request and
  \<open>m\<close> throws an instance of \<^verbatim>\<open>EthereumRpcError\<close> (by itself, or because a call of
  \<^verbatim>\<open>end\<close> threw one), the error of the final response is that value, unchanged, whatever
  middleware follow, provided the handlers collected so far do not assign to the
  response's error.
\<close>

theorem thrown_rpc_error_passes_through:
  assumes valid: "is_request callerReq"
    and pre: "middleware_loop L (own_props callerReq) (new_response (own_props callerReq)) []
                (JNull, False) before = Inr ((e, False), req1, res1, hs)"
    and call: "call_middleware L m req1 res1 = (req2, res2, endCalled, Throw (JRpcError c msg d))"
    and keep: "\<forall>h \<in> set hs. \<forall>rq r. res_error (fst (hrun h rq r)) = res_error r"
  shows "res_error (fst (snd (handle_request L (before @ m # after) callerReq)))
           = Some (JRpcError c msg d)"
proof -
  have k: "\<forall>h \<in> set (rev hs). \<forall>rq r. res_error (fst (hrun h rq r)) = res_error r"
    using keep by simp
  show ?thesis
    by (rule error_reaches_response
          [OF valid throw_completes_stack [OF pre call processMiddlewareError.simps(1)] _ _ k])
       simp_all
qed

theorem thrown_rpc_error_passes_through_witness:
  "is_request request_m
   \<and> call_middleware example_lib (throws (JRpcError (-32000) ''boom'' JUndefined))
        (own_props request_m) (new_response (own_props request_m))
       = (own_props request_m, new_response (own_props request_m), False,
          Throw (JRpcError (-32000) ''boom'' JUndefined))
   \<and> res_error (fst (snd (handle_request example_lib
        ([registers hA] @ throws (JRpcError (-32000) ''boom'' JUndefined) # [ends_with_result])
        request_m)))
       = Some (JRpcError (-32000) ''boom'' JUndefined)"
proof -
  have v: "is_request request_m" by (simp add: is_request_def request_m_def)
  have p: "middleware_loop example_lib (own_props request_m) (new_response (own_props request_m)) []
        (JNull, False) [registers hA]
       = Inr ((JNull, False), own_props request_m, new_response (own_props request_m), [hA])"
    by (simp add: engine_defs example_defs)
  have c: "call_middleware example_lib (throws (JRpcError (-32000) ''boom'' JUndefined))
        (own_props request_m) (new_response (own_props request_m))
       = (own_props request_m, new_response (own_props request_m), False,
          Throw (JRpcError (-32000) ''boom'' JUndefined))"
    by (simp add: call_middleware_def throws_def)
  have k: "\<forall>h \<in> set [hA]. \<forall>rq r. res_error (fst (hrun h rq r)) = res_error r"
    by (simp add: hA_def)
  show ?thesis
    using thrown_rpc_error_passes_through [OF v p c k, of "[ends_with_result]"] v c by simp
qed

text \<open>
  The plain object \<^verbatim>\<open>{ code: -32000, message: 'boom' }\<close> is not an instance of \<^verbatim>\<open>Error\<close>:
  the response's error is a new internal-coded error that carries it as
  \<^verbatim>\<open>data.thrownValue\<close>.
\<close>

theorem thrown_plain_object_counterexample:
  "res_error (fst (snd (handle_request example_lib
      [throws (JObj [(''code'', JNum (-32000)), (''message'', JStr ''boom'')])] request_m)))
     = Some (JRpcError (-32603) ''JsonRpcEngine: Middleware threw non-Error value.''
         (JObj [(''request'', request_m),
                (''thrownValue'', JObj [(''code'', JNum (-32000)), (''message'', JStr ''boom'')])]))
   \<and> res_error (fst (snd (handle_request example_lib
      [throws (JObj [(''code'', JNum (-32000)), (''message'', JStr ''boom'')])] request_m)))
     \<noteq> Some (JObj [(''code'', JNum (-32000)), (''message'', JStr ''boom'')])"
  by (simp add: engine_defs example_defs message_defs)

subsection \<open>A middleware that throws a value that is not an error\<close>

text \<open>
  C7, as amended. When the middlewares before \<open>m\<close> have not completed the request and
  \<open>m\<close> throws a value that is not an instance of \<^verbatim>\<open>Error\<close>, the error of the final
  response has the internal code, the message
  \<^verbatim>\<open>JsonRpcEngine: Middleware threw non-Error value.\<close> and the data
  \<^verbatim>\<open>{ request, thrownValue }\<close>, with the request as the middleware left it, provided the
  handlers collected so far do not assign to the response's error.
\<close>

theorem thrown_non_error_is_wrapped:
  assumes valid: "is_request callerReq"
    and pre: "middleware_loop L (own_props callerReq) (new_response (own_props callerReq)) []
                (JNull, False) before = Inr ((e, False), req1, res1, hs)"
    and call: "call_middleware L m req1 res1 = (req2, res2, endCalled, Throw v)"
    and non: "\<not> instanceof_Error v"
    and keep: "\<forall>h \<in> set hs. \<forall>rq r. res_error (fst (hrun h rq r)) = res_error r"
  shows "res_error (fst (snd (handle_request L (before @ m # after) callerReq)))
           = Some (JRpcError (rpc_internal L) threwNonError
                     (JObj [(''request'', JObj req2), (''thrownValue'', v)]))"
proof -
  have k: "\<forall>h \<in> set (rev hs). \<forall>rq r. res_error (fst (hrun h rq r)) = res_error r"
    using keep by simp
  show ?thesis
    by (rule error_reaches_response
          [OF valid throw_completes_stack [OF pre call processMiddlewareError_non_error [OF non]]
              _ _ k])
       simp_all
qed

theorem thrown_non_error_is_wrapped_witness:
  "is_request request_m
   \<and> \<not> instanceof_Error (JStr ''oops'')
   \<and> res_error (fst (snd (handle_request example_lib
        ([registers hA] @ throws (JStr ''oops'') # [ends_with_result]) request_m)))
       = Some (JRpcError (-32603) threwNonError
                 (JObj [(''request'', request_m), (''thrownValue'', JStr ''oops'')]))"
proof -
  have v: "is_request request_m" by (simp add: is_request_def request_m_def)
  have p: "middleware_loop example_lib (own_props request_m) (new_response (own_props request_m)) []
        (JNull, False) [registers hA]
       = Inr ((JNull, False), own_props request_m, new_response (own_props request_m), [hA])"
    by (simp add: engine_defs example_defs)
  have c: "call_middleware example_lib (throws (JStr ''oops''))
        (own_props request_m) (new_response (own_props request_m))
       = (own_props request_m, new_response (own_props request_m), False, Throw (JStr ''oops''))"
    by (simp add: call_middleware_def throws_def)
  have n: "\<not> instanceof_Error (JStr ''oops'')" by simp
  have k: "\<forall>h \<in> set [hA]. \<forall>rq r. res_error (fst (hrun h rq r)) = res_error r"
    by (simp add: hA_def)
  show ?thesis
    using thrown_non_error_is_wrapped [OF v p c n k, of "[ends_with_result]"] v
    by (simp add: example_lib_def request_m_def)
qed

text \<open>The message is not the text \<^verbatim>\<open>non-error value thrown\<close>.\<close>

theorem thrown_non_error_message_counterexample:
  "get_prop (read_error (fst (snd (handle_request example_lib [throws (JStr ''oops'')] request_m))))
      ''message'' = JStr ''JsonRpcEngine: Middleware threw non-Error value.''
   \<and> get_prop (read_error (fst (snd (handle_request example_lib [throws (JStr ''oops'')] request_m))))
      ''message'' \<noteq> JStr ''non-error value thrown''"
  by (simp add: engine_defs example_defs message_defs)

subsection \<open>\<^verbatim>\<open>end\<close> called with a value\<close>

text \<open>
  C8, as amended. When the middlewares before \<open>m\<close> have not completed the request, \<open>m\<close>
  reaches a call \<^verbatim>\<open>end(v)\<close> with a truthy \<open>v\<close> and lets the exception of that call
  leave it, the error of the final response is the internal-coded error that \<^verbatim>\<open>end\<close>
  threw, with \<open>v\<close> as \<^verbatim>\<open>data.endCallbackCalledWith\<close>, provided the handlers collected so
  far do not assign to the response's error.
\<close>

theorem end_with_value_fails_request:
  assumes valid: "is_request callerReq"
    and pre: "middleware_loop L (own_props callerReq) (new_response (own_props callerReq)) []
                (JNull, False) before = Inr ((e, False), req_in, res_in, hs)"
    and script: "m req_in res_in = (as @ End v # bs, fin)"
    and reached: "run_script L req_in res_in False as = (req_out, res_out, endCalled, None)"
    and v: "truthy v"
    and keep: "\<forall>h \<in> set hs. \<forall>rq r. res_error (fst (hrun h rq r)) = res_error r"
  shows "res_error (fst (snd (handle_request L (before @ m # after) callerReq)))
           = Some (JRpcError (rpc_internal L)
                     (if instanceof_Error v then noErrorsToEnd else noValuesToEnd v)
                     (JObj [(''request'', JObj req_out), (''endCallbackCalledWith'', v)]))"
proof -
  have k: "\<forall>h \<in> set (rev hs). \<forall>rq r. res_error (fst (hrun h rq r)) = res_error r"
    using keep by simp
  show ?thesis
    by (rule error_reaches_response
          [OF valid
              throw_completes_stack
                [OF pre end_with_value_throws
                      [where m = m and req_in = req_in and res_in = res_in, OF script reached v]
                    processMiddlewareError.simps(1)]
              _ _ k])
       simp_all
qed

theorem end_with_value_fails_request_witness:
  "is_request request_m
   \<and> truthy (JStr ''done'')
   \<and> res_error (fst (snd (handle_request example_lib
        ([registers hA] @ ends_with_value (JStr ''done'') # [ends_with_result]) request_m)))
       = Some (JRpcError (-32603) (noValuesToEnd (JStr ''done''))
                 (JObj [(''request'', request_m), (''endCallbackCalledWith'', JStr ''done'')]))"
proof -
  have v: "is_request request_m" by (simp add: is_request_def request_m_def)
  have p: "middleware_loop example_lib (own_props request_m) (new_response (own_props request_m)) []
        (JNull, False) [registers hA]
       = Inr ((JNull, False), own_props request_m, new_response (own_props request_m), [hA])"
    by (simp add: engine_defs example_defs)
  have s: "ends_with_value (JStr ''done'') (own_props request_m) (new_response (own_props request_m))
       = ([] @ End (JStr ''done'') # [], Return (RetValue JUndefined))"
    by (simp add: ends_with_value_def)
  have r: "run_script example_lib (own_props request_m) (new_response (own_props request_m)) False []
       = (own_props request_m, new_response (own_props request_m), False, None)"
    by simp
  have t: "truthy (JStr ''done'')" by simp
  have k: "\<forall>h \<in> set [hA]. \<forall>rq r. res_error (fst (hrun h rq r)) = res_error r"
    by (simp add: hA_def)
  show ?thesis
    using end_with_value_fails_request [where m = "ends_with_value (JStr ''done'')"
        and req_in = "own_props request_m" and res_in = "new_response (own_props request_m)"
        and after = "[ends_with_result]", OF v p s r t k] v
    by (simp add: example_lib_def request_m_def)
qed

text \<open>
  A middleware that catches the exception of \<^verbatim>\<open>end('x')\<close>, sets a result and calls
  \<^verbatim>\<open>end()\<close>: the response has the result and no error.
\<close>

theorem swallowed_end_error_counterexample:
  "handle_request example_lib [swallows_end_error] request_m =
     (JNull,
      \<lparr>res_id = JNum 1, res_jsonrpc = JStr ''2.0'', res_result = Some (JNum 1), res_error = None\<rparr>,
      [])"
  by (simp add: engine_defs example_defs)

subsection \<open>A return handler that throws\<close>

text \<open>
  C6, as amended. When the middleware phase has completed (\<^verbatim>\<open>_runAllMiddleware\<close> has
  not rejected) and the handler \<open>h\<close> throws \<open>x\<close> after the handlers before it have
  returned, the handlers after it in the unwind (those registered earlier) are not
  invoked, and \<open>x\<close> leaves \<^verbatim>\<open>_runReturnHandlers\<close> and \<^verbatim>\<open>_processRequest\<close> as it is.
  \<^verbatim>\<open>_handle\<close> catches it: \<open>x\<close> is the error it passes to the callback, and when \<open>x\<close> is
  truthy and the response holds no error, the response gets \<^verbatim>\<open>serializeError(x)\<close> as its
  error and loses its result.
\<close>

theorem handler_error_stops_unwind:
  assumes valid: "is_request callerReq"
    and run: "runAllMiddleware L (own_props callerReq) (new_response (own_props callerReq)) stack
                = Inr ((e, True, before @ h # remaining), req1, res1)"
    and has: "res_result res1 \<noteq> None \<or> res_error res1 \<noteq> None"
    and ok: "runReturnHandlers req1 res1 before = (res2, names, None)"
    and throws: "hrun h req1 res2 = (res3, Some x)"
  shows "handle_request L stack callerReq = (x, finalize L x res3, map hname before @ [hname h])
     \<and> (truthy x \<and> \<not> has_error res3 \<longrightarrow>
          res_error (finalize L x res3) = Some (serializeError L x)
          \<and> res_result (finalize L x res3) = None)"
proof -
  have chk: "checkForCompletion L req1 res1 True = None"
    using has by (auto simp add: checkForCompletion_def)
  have n: "names = map hname before" using handlers_returned_names [OF ok] .
  have rh: "runReturnHandlers req1 res1 (before @ h # remaining) = (res3, names @ [hname h], Some x)"
    using handlers_stop_at_throw [OF ok throws] .
  have "handle_request L stack callerReq = (x, finalize L x res3, names @ [hname h])"
    using valid run chk rh
    by (simp add: handle_request_def is_request_def not_plain_object_def processRequest_def Let_def)
  moreover have "truthy x \<and> \<not> has_error res3 \<longrightarrow>
          res_error (finalize L x res3) = Some (serializeError L x)
          \<and> res_result (finalize L x res3) = None"
    by (simp add: finalize_def has_error_def read_error_def Let_def)
  ultimately show ?thesis using n by simp
qed

theorem handler_error_stops_unwind_witness:
  "is_request request_m
   \<and> hrun hX (own_props request_m) ((new_response (own_props request_m))\<lparr>res_result := Some (JNum 1)\<rparr>)
       = ((new_response (own_props request_m))\<lparr>res_result := Some (JNum 1)\<rparr>, Some (JStr ''X''))
   \<and> handle_request example_lib [registers hA, registers hX, ends_with_result] request_m
       = (JStr ''X'',
          \<lparr>res_id = JNum 1, res_jsonrpc = JStr ''2.0'', res_result = None,
           res_error = Some (serializeError example_lib (JStr ''X''))\<rparr>,
          [''hX''])"
proof -
  have v: "is_request request_m" by (simp add: is_request_def request_m_def)
  have r: "runAllMiddleware example_lib (own_props request_m) (new_response (own_props request_m))
        [registers hA, registers hX, ends_with_result]
       = Inr ((JNull, True, [] @ hX # [hA]), own_props request_m,
              (new_response (own_props request_m))\<lparr>res_result := Some (JNum 1)\<rparr>)"
    by (simp add: engine_defs example_defs)
  have h: "res_result ((new_response (own_props request_m))\<lparr>res_result := Some (JNum 1)\<rparr>) \<noteq> None
        \<or> res_error ((new_response (own_props request_m))\<lparr>res_result := Some (JNum 1)\<rparr>) \<noteq> None"
    by simp
  have k: "runReturnHandlers (own_props request_m)
        ((new_response (own_props request_m))\<lparr>res_result := Some (JNum 1)\<rparr>) []
       = ((new_response (own_props request_m))\<lparr>res_result := Some (JNum 1)\<rparr>, [], None)"
    by simp
  have t: "hrun hX (own_props request_m) ((new_response (own_props request_m))\<lparr>res_result := Some (JNum 1)\<rparr>)
       = ((new_response (own_props request_m))\<lparr>res_result := Some (JNum 1)\<rparr>, Some (JStr ''X''))"
    by (simp add: hX_def)
  show ?thesis
    using handler_error_stops_unwind [OF v r h k t] v t
    by (simp add: finalize_def has_error_def read_error_def new_response_def request_m_def hX_def)
qed

text \<open>
  The handler's error \<^verbatim>\<open>'X'\<close> is coerced: the error of the response is
  \<^verbatim>\<open>serializeError('X')\<close>, and the result that the middleware set is gone.
\<close>

theorem handler_error_serialized_counterexample:
  "handle_request example_lib [registers hA, registers hX, ends_with_result] request_m
     = (JStr ''X'',
        \<lparr>res_id = JNum 1, res_jsonrpc = JStr ''2.0'', res_result = None,
         res_error = Some (serializeError example_lib (JStr ''X''))\<rparr>,
        [''hX''])"
  by (simp add: engine_defs example_defs)

subsection \<open>The empty stack\<close>

text \<open>
  C5, as amended. For every request that passes validation, an engine with an empty
  stack fails with the internal-coded error whose message is
  \<^verbatim>\<open>JsonRpcEngine: Response has no error or result\<close>: \<^verbatim>\<open>_checkForCompletion\<close> tests the
  missing result and error before it tests \<^verbatim>\<open>isComplete\<close>. The response holds the
  serialization of that error and no result, and no handler runs.
\<close>

theorem empty_stack_no_error_or_result:
  "is_request callerReq \<Longrightarrow>
   handle_request L [] callerReq =
     (JRpcError (rpc_internal L) noErrorOrResult (JObj [(''request'', JObj (own_props callerReq))]),
      (new_response (own_props callerReq))
        \<lparr>res_error := Some (serializeError L
            (JRpcError (rpc_internal L) noErrorOrResult
               (JObj [(''request'', JObj (own_props callerReq))])))\<rparr>,
      [])"
  by (simp add: engine_defs is_request_def)

theorem empty_stack_no_error_or_result_witness:
  "is_request request_m \<and>
   fst (handle_request example_lib [] request_m) =
     JRpcError (-32603) noErrorOrResult (JObj [(''request'', request_m)])"
  using empty_stack_no_error_or_result [of request_m example_lib]
  by (simp add: is_request_def request_m_def example_lib_def)

text \<open>The error is not the one of \<^verbatim>\<open>nothingEndedRequest\<close>.\<close>

theorem empty_stack_counterexample:
  "fst (handle_request example_lib [] request_m) =
     JRpcError (-32603) ''JsonRpcEngine: Response has no error or result''
       (JObj [(''request'', request_m)])
   \<and> fst (handle_request example_lib [] request_m) \<noteq>
     JRpcError (-32603) nothingEndedRequest (JObj [(''request'', request_m)])"
  by (simp add: engine_defs example_defs message_defs)

subsection \<open>The caller's request object\<close>

text \<open>
  C9, as amended. When nothing in the store refers to the caller's request object, and
  no write stores a reference to it, the own properties of the caller's object are the
  same after \<^verbatim>\<open>_handle\<close>, whatever the middleware assign to or delete from the request
  they receive and the objects they reach from it.
\<close>

theorem caller_request_keeps_own_properties:
  assumes inside: "callerReq < length s"
    and unref: "unreferenced callerReq s"
    and writes: "\<forall>w \<in> set writes. written w \<noteq> Some (HRef callerReq)"
  shows "\<exists>s'. handle_store s callerReq writes = Some s' \<and> s' ! callerReq = s ! callerReq"
proof -
  have u: "unreferenced callerReq (s @ [s ! callerReq])"
    using unref inside by (auto simp add: unreferenced_def)
  have r: "length s \<noteq> callerReq" using inside by simp
  have "foldl (apply_write (length s)) (s @ [s ! callerReq]) writes ! callerReq
          = (s @ [s ! callerReq]) ! callerReq"
    by (rule writes_keep [OF u r writes])
  then show ?thesis using inside by (simp add: handle_store_def spread_copy_def nth_append)
qed

theorem caller_request_keeps_own_properties_witness:
  "0 < length caller_store \<and> unreferenced 0 caller_store
   \<and> handle_store caller_store 0
        [Assign [] ''method'' (HPrim (JStr ''other'')), Delete [] ''params'',
         Assign [''params''] ''x'' (HPrim (JNum 1))]
      = Some [[(''method'', HPrim (JStr ''m'')), (''params'', HRef 1)], [(''x'', HPrim (JNum 0))],
              [(''method'', HPrim (JStr ''other''))]]"
proof -
  have i: "0 < length caller_store" by (simp add: caller_store_def)
  have u: "unreferenced 0 caller_store" by (simp add: unreferenced_def caller_store_def)
  have w: "\<forall>w \<in> set [Assign [] ''method'' (HPrim (JStr ''other'')), Delete [] ''params'',
         Assign [''params''] ''x'' (HPrim (JNum 1))]. written w \<noteq> Some (HRef 0)" by simp
  have e: "handle_store caller_store 0
        [Assign [] ''method'' (HPrim (JStr ''other'')), Delete [] ''params'',
         Assign [''params''] ''x'' (HPrim (JNum 1))]
      = Some [[(''method'', HPrim (JStr ''m'')), (''params'', HRef 1)], [(''x'', HPrim (JNum 0))],
              [(''method'', HPrim (JStr ''other''))]]"
    by (simp add: handle_store_def spread_copy_def caller_store_def)
  show ?thesis using caller_request_keeps_own_properties [OF i u w] i u e by simp
qed

text \<open>
  The object under \<^verbatim>\<open>params\<close> is shared by the copy: after a middleware's
  \<^verbatim>\<open>req.params.x = 1\<close> the caller reads 1 at \<^verbatim>\<open>callerReq.params.x\<close>, where it read 0.
\<close>

theorem nested_write_reaches_caller_counterexample:
  "read_path caller_store 0 [''params''] ''x'' = Some (HPrim (JNum 0))
   \<and> handle_store caller_store 0 [Assign [''params''] ''x'' (HPrim (JNum 1))]
      = Some [[(''method'', HPrim (JStr ''m'')), (''params'', HRef 1)], [(''x'', HPrim (JNum 1))],
              [(''method'', HPrim (JStr ''m'')), (''params'', HRef 1)]]
   \<and> read_path [[(''method'', HPrim (JStr ''m'')), (''params'', HRef 1)], [(''x'', HPrim (JNum 1))],
                [(''method'', HPrim (JStr ''m'')), (''params'', HRef 1)]] 0 [''params''] ''x''
      = Some (HPrim (JNum 1))"
  by (simp add: handle_store_def spread_copy_def caller_store_def read_path_def)

subsection \<open>The callback argument\<close>

text \<open>
  C10, as amended. When the second argument of \<^verbatim>\<open>handle\<close> is truthy and not a function,
  \<^verbatim>\<open>handle\<close> throws an \<^verbatim>\<open>Error\<close> with the message
  \<^verbatim>\<open>"callback" must be a function if provided.\<close>, whatever the request and the stack are:
  no validation and no middleware has run.
\<close>

theorem handle_rejects_callback:
  "truthy v \<Longrightarrow> handle L stack req (CbValue v) = Threw (JError callbackMustBeFunction [])"
  by (cases v) (simp_all add: handle_def)

theorem handle_rejects_callback_witness:
  "truthy (JStr ''cb'') \<and>
   handle example_lib [ends_with_result] request_m (CbValue (JStr ''cb''))
     = Threw (JError callbackMustBeFunction [])"
  using handle_rejects_callback [of "JStr ''cb''" example_lib "[ends_with_result]" request_m]
  by simp

text \<open>
  A second argument that is falsy, here the number 0, is not a function, and \<^verbatim>\<open>handle\<close>
  does not throw: it treats the call as one without a callback.
\<close>

theorem handle_falsy_callback_counterexample:
  "handle example_lib [ends_with_result] request_m (CbValue (JNum 0))
     = Promised (Fulfilled \<lparr>res_id = JNum 1, res_jsonrpc = JStr ''2.0'',
                             res_result = Some (JNum 1), res_error = None\<rparr>)"
  by (simp add: engine_defs example_defs)

end
